theory Spec2Isabelle
  imports Complex_Main "HOL-Library.Word"
begin

section \<open>The OpenSlide reader of libvips (foreign/openslide.c)\<close>

text \<open>
  A shallow embedding of \<^verbatim>\<open>src/libvips/foreign/openslide.c\<close>. The C functions keep
  their names. The OpenSlide library and the rest of libvips are collaborators of this
  file: what they report is a parameter of the model (the record \<open>slide\<close>, the record
  \<open>host\<close>), what the file asks of them is recorded in the state.
\<close>

subsection \<open>Constants and C conversions\<close>

definition TILE_WIDTH :: int where
  "TILE_WIDTH = 256"

definition TILE_HEIGHT :: int where
  "TILE_HEIGHT = 256"

text \<open>
  \<^verbatim>\<open>limits.h\<close> of an LP64 platform: \<^verbatim>\<open>int\<close> has 32 bits, \<^verbatim>\<open>long\<close> has 64.
\<close>

definition INT_MAX :: int where
  "INT_MAX = 2147483647"

definition LONG_MAX :: int where
  "LONG_MAX = 9223372036854775807"

definition LONG_MIN :: int where
  "LONG_MIN = - 9223372036854775808"

definition ULONG_MAX :: int where
  "ULONG_MAX = 18446744073709551615"

text \<open>
  A \<^verbatim>\<open>double\<close> is modelled as the real number it stands for. The conversion of a
  \<^verbatim>\<open>double\<close> to an integer type drops the fraction.
\<close>

definition double_to_int :: "real \<Rightarrow> int" where
  "double_to_int v = (if 0 \<le> v then \<lfloor>v\<rfloor> else \<lceil>v\<rceil>)"

text \<open>
  The result of an operation on doubles is the double nearest to the exact result, with
  53 significant bits, a tie going to the even neighbour. \<open>round_double v\<close> is that
  double: \<open>u\<close> is the distance between the doubles around \<open>v\<close>. The range of the
  exponent is not modelled (no overflow, no subnormal numbers). The product
  \<^verbatim>\<open>1.5 * n\<close> for a tile count \<open>n\<close> is a double itself and is written without the rounding;
  a coordinate times the downsample is rounded.
\<close>

definition round_half_even :: "real \<Rightarrow> int" where
  "round_half_even v =
     (let f = \<lfloor>v\<rfloor>
      in if v - real_of_int f < 1 / 2 then f
         else if 1 / 2 < v - real_of_int f then f + 1
         else if even f then f else f + 1)"

definition round_double :: "real \<Rightarrow> real" where
  "round_double v =
     (if v = 0 then 0
      else (let u = 2 powr (real_of_int \<lfloor>log 2 \<bar>v\<bar>\<rfloor> - 52)
            in u * real_of_int (round_half_even (v / u))))"

text \<open>The quotient of two C integers is rounded towards zero.\<close>

definition c_div :: "int \<Rightarrow> int \<Rightarrow> int" where
  "c_div a b = sgn a * sgn b * (\<bar>a\<bar> div \<bar>b\<bar>)"

text \<open>An \<^verbatim>\<open>int32_t\<close> is a 32-bit word read as two's complement.\<close>

type_synonym int32_t = "32 word"

subsection \<open>The C library: strtol and strtoul\<close>

definition isspace :: "char \<Rightarrow> bool" where
  "isspace c = (c = CHR '' '' \<or> c = CHR 0x09 \<or> c = CHR 0x0A \<or> c = CHR 0x0B
      \<or> c = CHR 0x0C \<or> c = CHR 0x0D)"

definition digit_of :: "char \<Rightarrow> nat option" where
  "digit_of c =
     (let n = (of_char c :: nat)
      in if 48 \<le> n \<and> n \<le> 57 then Some (n - 48)
         else if 97 \<le> n \<and> n \<le> 122 then Some (n - 87)
         else if 65 \<le> n \<and> n \<le> 90 then Some (n - 55)
         else None)"

definition is_digit :: "nat \<Rightarrow> char \<Rightarrow> bool" where
  "is_digit base c = (case digit_of c of Some d \<Rightarrow> d < base | None \<Rightarrow> False)"

fun digits_value :: "nat \<Rightarrow> nat \<Rightarrow> string \<Rightarrow> nat" where
  "digits_value base acc [] = acc"
| "digits_value base acc (c # cs) =
     digits_value base (case digit_of c of Some d \<Rightarrow> acc * base + d | None \<Rightarrow> acc) cs"

definition is_sign :: "string \<Rightarrow> bool" where
  "is_sign s = (case s of [] \<Rightarrow> False | c # _ \<Rightarrow> c = CHR ''-'' \<or> c = CHR ''+'')"

definition is_minus :: "string \<Rightarrow> bool" where
  "is_minus s = (case s of [] \<Rightarrow> False | c # _ \<Rightarrow> c = CHR ''-'')"

text \<open>
  \<^verbatim>\<open>strtol( s, &endp, 10 )\<close>: the value and the text \<^verbatim>\<open>endp\<close> points to. White space
  and one sign are skipped, then the decimal digits are read. With no digit nothing is
  converted: the value is 0 and \<^verbatim>\<open>endp\<close> is \<^verbatim>\<open>s\<close>. A value outside \<^verbatim>\<open>long\<close> is
  replaced by \<^verbatim>\<open>LONG_MAX\<close> or \<^verbatim>\<open>LONG_MIN\<close>.
\<close>

definition strtol :: "string \<Rightarrow> int \<times> string" where
  "strtol s =
     (let s1 = dropWhile isspace s;
          s2 = (if is_sign s1 then tl s1 else s1);
          ds = takeWhile (is_digit 10) s2;
          v = int (digits_value 10 0 ds)
      in if ds = [] then (0, s)
         else (if is_minus s1 then max LONG_MIN (- v) else min LONG_MAX v,
               dropWhile (is_digit 10) s2))"

definition has_hex_prefix :: "string \<Rightarrow> bool" where
  "has_hex_prefix s =
     (case s of
        a # b # c # _ \<Rightarrow> a = CHR ''0'' \<and> (b = CHR ''x'' \<or> b = CHR ''X'') \<and> is_digit 16 c
      | _ \<Rightarrow> False)"

text \<open>
  \<^verbatim>\<open>strtoul( s, NULL, 16 )\<close>: as \<^verbatim>\<open>strtol\<close>, in base 16 with an optional \<^verbatim>\<open>0x\<close>; the
  result is an \<^verbatim>\<open>unsigned long\<close>, so a minus sign negates modulo \<^verbatim>\<open>ULONG_MAX + 1\<close>
  and a value that does not fit is replaced by \<^verbatim>\<open>ULONG_MAX\<close>.
\<close>

definition strtoul16 :: "string \<Rightarrow> int" where
  "strtoul16 s =
     (let s1 = dropWhile isspace s;
          s2 = (if is_sign s1 then tl s1 else s1);
          s3 = (if has_hex_prefix s2 then drop 2 s2 else s2);
          ds = takeWhile (is_digit 16) s3;
          v = int (digits_value 16 0 ds)
      in if ds = [] then 0
         else if ULONG_MAX < v then ULONG_MAX
         else if is_minus s1 then (- v) mod (ULONG_MAX + 1)
         else v)"

text \<open>An \<^verbatim>\<open>unsigned long\<close> passed where an \<^verbatim>\<open>int\<close> is expected keeps its low 32 bits.\<close>

definition ulong_to_int :: "int \<Rightarrow> int" where
  "ulong_to_int v = sint (word_of_int v :: int32_t)"

fun g_strjoinv :: "string \<Rightarrow> string list \<Rightarrow> string" where
  "g_strjoinv sep [] = []"
| "g_strjoinv sep [x] = x"
| "g_strjoinv sep (x # y # ys) = x @ sep @ g_strjoinv sep (y # ys)"

subsection \<open>The OpenSlide backend\<close>

type_synonym pixel = "32 word"

text \<open>
  What OpenSlide reports for one slide file. The dimension queries store \<open>-1\<close> and the
  downsample query returns \<open>-1.0\<close> on failure; a name or a value is a C string that
  may be \<^verbatim>\<open>NULL\<close> (\<open>None\<close>). \<open>region_pel l x y i j\<close> is pixel \<open>(i, j)\<close> of the region of
  layer \<open>l\<close> whose corner is \<open>(x, y)\<close> in the coordinates of layer 0; \<open>associated_pel\<close>
  is an associated image row after row.
\<close>

record slide =
  layer_count :: int
  layer_dimensions :: "int \<Rightarrow> int \<times> int"
  layer_downsample :: "int \<Rightarrow> real"
  associated_image_names :: "string list"
  associated_image_dimensions :: "string option \<Rightarrow> int \<times> int"
  property_names :: "string list"
  property_value :: "string \<Rightarrow> string option"
  error_state :: "string option"
  region_pel :: "int \<Rightarrow> int \<Rightarrow> int \<Rightarrow> int \<Rightarrow> int \<Rightarrow> pixel"
  associated_pel :: "string option \<Rightarrow> int \<Rightarrow> pixel"

text \<open>An \<^verbatim>\<open>openslide_t *\<close> that is not \<^verbatim>\<open>NULL\<close>: the number of the open and the slide.\<close>

record openslide_t =
  handle :: nat
  content :: slide

definition OPENSLIDE_PROPERTY_NAME_BACKGROUND_COLOR :: string where
  "OPENSLIDE_PROPERTY_NAME_BACKGROUND_COLOR = ''openslide.background-color''"

subsection \<open>The state: ReadSlide structs, images, backend calls\<close>

record ReadSlide =
  osr :: "openslide_t option"
  associated :: "string option"
  layer :: int32_t
  downsample :: real

datatype VipsDemandStyle =
  VIPS_DEMAND_STYLE_SMALLTILE | VIPS_DEMAND_STYLE_FATSTRIP
| VIPS_DEMAND_STYLE_THINSTRIP | VIPS_DEMAND_STYLE_ANY

datatype VipsBandFormat = VIPS_FORMAT_NOTSET | VIPS_FORMAT_UCHAR

datatype VipsCoding = VIPS_CODING_ERROR | VIPS_CODING_NONE

datatype VipsInterpretation = VIPS_INTERPRETATION_MULTIBAND | VIPS_INTERPRETATION_RGB

datatype meta_value = MetaString "string option" | MetaInt int

text \<open>
  An image, as far as this file touches it: the header fields, the metadata, the demand
  hint, the \<^verbatim>\<open>ReadSlide\<close> pointers connected to its "close" signal with
  \<^verbatim>\<open>readslide_destroy_cb\<close>, the client pointer of the generate function
  \<^verbatim>\<open>fill_region\<close>, the tile cache put in front of it (tile width, tile height, maximum
  number of tiles), the sizes of the arrays allocated with \<^verbatim>\<open>VIPS_ARRAY\<close> and the lines
  written (the line number and where in the buffer the line starts).
\<close>

record VipsImage =
  Xsize :: int
  Ysize :: int
  Bands :: int
  BandFmt :: VipsBandFormat
  Coding :: VipsCoding
  Type :: VipsInterpretation
  Xres :: real
  Yres :: real
  meta :: "string \<Rightarrow> meta_value option"
  dhint :: VipsDemandStyle
  close_cbs :: "nat list"
  generate :: "nat option"
  tile_cache :: "(int \<times> int \<times> int) option"
  arrays :: "int list"
  lines :: "(int \<times> int) list"

text \<open>
  The rest of the state: the slide files OpenSlide can open, how many opens succeeded,
  the handles passed to \<^verbatim>\<open>openslide_close\<close>, the store of \<^verbatim>\<open>ReadSlide\<close> structs (a
  pointer is an address of the store, \<open>allocated\<close> the next free one), the calls of
  \<^verbatim>\<open>openslide_read_region\<close> (where \<^verbatim>\<open>dest\<close> points in the buffer of the region, then
  \<^verbatim>\<open>x\<close>, \<^verbatim>\<open>y\<close>, \<^verbatim>\<open>layer\<close>, \<^verbatim>\<open>w\<close>, \<^verbatim>\<open>h\<close>) and the calls of
  \<^verbatim>\<open>openslide_read_associated_image\<close> (the name).
\<close>

type_synonym region_read = "int \<times> int \<times> int \<times> int \<times> int \<times> int"

record world =
  files :: "string \<Rightarrow> slide option"
  opened :: nat
  closes :: "nat list"
  heap :: "nat \<Rightarrow> ReadSlide"
  allocated :: nat
  reads :: "region_read list"
  image_reads :: "string option list"

datatype error =
  OpenFailure | InvalidLayer | InvalidAssociatedName | DimensionQuery
| DimensionOverflow | ReadFailure string | HostFailure | NullPointer

text \<open>
  The error kinds name the messages of \<^verbatim>\<open>vips_error\<close>: "failure opening slide",
  "invalid slide layer", "invalid associated image name", "getting dimensions: ...",
  "image dimensions overflow int", "reading region: ..." and "reading associated
  image: ...". \<open>HostFailure\<close> is a failing libvips call, \<open>NullPointer\<close> the use of a
  \<^verbatim>\<open>NULL\<close> handle.
\<close>

definition openslide_open :: "string \<Rightarrow> world \<Rightarrow> openslide_t option \<times> world" where
  "openslide_open name wld =
     (case files wld name of
        None \<Rightarrow> (None, wld)
      | Some s \<Rightarrow> (Some \<lparr>handle = opened wld, content = s\<rparr>, wld\<lparr>opened := opened wld + 1\<rparr>))"

definition openslide_close :: "openslide_t \<Rightarrow> world \<Rightarrow> world" where
  "openslide_close h wld = wld\<lparr>closes := closes wld @ [handle h]\<rparr>"

definition poke :: "nat \<Rightarrow> (ReadSlide \<Rightarrow> ReadSlide) \<Rightarrow> world \<Rightarrow> world" where
  "poke p f wld = wld\<lparr>heap := (heap wld)(p := f (heap wld p))\<rparr>"

text \<open>\<^verbatim>\<open>VIPS_FREEF( openslide_close, rslide->osr )\<close>: close and clear, if set.\<close>

definition readslide_destroy_cb :: "nat \<Rightarrow> world \<Rightarrow> world" where
  "readslide_destroy_cb rslide wld =
     (case osr (heap wld rslide) of
        None \<Rightarrow> wld
      | Some h \<Rightarrow> poke rslide (\<lambda>r. r\<lparr>osr := None\<rparr>) (openslide_close h wld))"

fun check_associated_image_loop :: "string list \<Rightarrow> string \<Rightarrow> int" where
  "check_associated_image_loop [] name = - 1"
| "check_associated_image_loop (a # as) name =
     (if a = name then 0 else check_associated_image_loop as name)"

definition check_associated_image :: "openslide_t \<Rightarrow> string \<Rightarrow> int" where
  "check_associated_image h name =
     check_associated_image_loop (associated_image_names (content h)) name"

definition vips_image_set :: "string \<Rightarrow> meta_value \<Rightarrow> VipsImage \<Rightarrow> VipsImage" where
  "vips_image_set field v im = im\<lparr>meta := (meta im)(field \<mapsto> v)\<rparr>"

definition vips_image_init_fields ::
  "int \<Rightarrow> int \<Rightarrow> int \<Rightarrow> VipsBandFormat \<Rightarrow> VipsCoding \<Rightarrow> VipsInterpretation \<Rightarrow> real \<Rightarrow> real
    \<Rightarrow> VipsImage \<Rightarrow> VipsImage" where
  "vips_image_init_fields xs ys b f c t xr yr im =
     im\<lparr>Xsize := xs, Ysize := ys, Bands := b, BandFmt := f, Coding := c, Type := t,
        Xres := xr, Yres := yr\<rparr>"

fun copy_properties :: "openslide_t \<Rightarrow> string list \<Rightarrow> VipsImage \<Rightarrow> VipsImage" where
  "copy_properties h [] im = im"
| "copy_properties h (p # ps) im =
     copy_properties h ps (vips_image_set p (MetaString (property_value (content h) p)) im)"

subsection \<open>readslide_new\<close>

text \<open>
  Lines 182 to 196: the dimension query of the selected image, the tag that names the
  selection and the demand hint. The result is \<open>w\<close>, \<open>h\<close>, the state and the image.
\<close>

definition readslide_query ::
  "openslide_t \<Rightarrow> nat \<Rightarrow> world \<Rightarrow> VipsImage \<Rightarrow> (int \<times> int) \<times> world \<times> VipsImage" where
  "readslide_query h rslide wld im =
     (case associated (heap wld rslide) of
        Some a \<Rightarrow>
          (associated_image_dimensions (content h) (Some a), wld,
           (vips_image_set ''slide-associated-image'' (MetaString (Some a)) im)
             \<lparr>dhint := VIPS_DEMAND_STYLE_THINSTRIP\<rparr>)
      | None \<Rightarrow>
          (layer_dimensions (content h) (sint (layer (heap wld rslide))),
           poke rslide
             (\<lambda>r. r\<lparr>downsample := layer_downsample (content h) (sint (layer r))\<rparr>) wld,
           (vips_image_set ''slide-layer'' (MetaInt (sint (layer (heap wld rslide)))) im)
             \<lparr>dhint := VIPS_DEMAND_STYLE_SMALLTILE\<rparr>))"

text \<open>Lines 198 to 206: the background colour tag.\<close>

definition readslide_background :: "openslide_t \<Rightarrow> VipsImage \<Rightarrow> VipsImage" where
  "readslide_background h im =
     (case property_value (content h) OPENSLIDE_PROPERTY_NAME_BACKGROUND_COLOR of
        Some background \<Rightarrow>
          vips_image_set ''background-rgb'' (MetaInt (ulong_to_int (strtoul16 background))) im
      | None \<Rightarrow> vips_image_set ''background-rgb'' (MetaInt 0xffffff) im)"


text \<open>Lines 220 to 232: the header fields, the properties, the list of associated images.\<close>

definition readslide_header :: "openslide_t \<Rightarrow> int \<Rightarrow> int \<Rightarrow> VipsImage \<Rightarrow> VipsImage" where
  "readslide_header h w hh im =
     vips_image_set ''slide-associated-images''
       (MetaString (Some (g_strjoinv '', '' (associated_image_names (content h)))))
       (copy_properties h (property_names (content h))
          (vips_image_init_fields w hh 4 VIPS_FORMAT_UCHAR VIPS_CODING_NONE
             VIPS_INTERPRETATION_RGB 1 1 im))"

text \<open>Lines 182 to 234, once the mode is parsed.\<close>

definition readslide_finish ::
  "openslide_t \<Rightarrow> nat \<Rightarrow> world \<Rightarrow> VipsImage \<Rightarrow> (error + nat) \<times> world \<times> VipsImage" where
  "readslide_finish h rslide wld0 im0 =
     (case readslide_query h rslide wld0 im0 of
        ((w, hh), wld, im1) \<Rightarrow>
          (let im = readslide_background h im1
           in if w < 0 \<or> hh < 0 \<or> downsample (heap wld rslide) < 0
              then (Inl DimensionQuery, wld, im)
              else if w > INT_MAX \<or> hh > INT_MAX
              then (Inl DimensionOverflow, wld, im)
              else (Inr rslide, wld, readslide_header h w hh im)))"

text \<open>
  \<open>readslide_new name mode wld out\<close>: \<open>name\<close> and \<open>mode\<close> are the two parts
  \<^verbatim>\<open>vips_filename_split\<close> makes of the filename. The struct is allocated and zeroed, the
  destroy callback is connected, then the slide is opened and the mode is parsed. The
  result is the pointer to the struct or the error, with the state and the image as
  they are when the function returns.
\<close>

definition readslide_new ::
  "string \<Rightarrow> string \<Rightarrow> world \<Rightarrow> VipsImage \<Rightarrow> (error + nat) \<times> world \<times> VipsImage" where
  "readslide_new name mode wld0 out0 =
     (let rslide = allocated wld0;
          wld1 = wld0\<lparr>allocated := allocated wld0 + 1,
                   heap := (heap wld0)
                     (rslide := \<lparr>osr = None, associated = None, layer = 0, downsample = 0\<rparr>)\<rparr>;
          out = out0\<lparr>close_cbs := close_cbs out0 @ [rslide]\<rparr>
      in case openslide_open name wld1 of
           (None, wld2) \<Rightarrow> (Inl OpenFailure, wld2, out)
         | (Some h, wld2) \<Rightarrow>
             (let wld3 = poke rslide (\<lambda>r. r\<lparr>osr := Some h\<rparr>) wld2;
                  endp = snd (strtol mode);
                  wld = poke rslide (\<lambda>r. r\<lparr>layer := word_of_int (fst (strtol mode))\<rparr>) wld3
              in if mode \<noteq> [] \<and> endp = []
                 then (if sint (layer (heap wld rslide)) < 0
                         \<or> layer_count (content h) \<le> sint (layer (heap wld rslide))
                       then (Inl InvalidLayer, wld, out)
                       else readslide_finish h rslide wld out)
                 else if mode \<noteq> []
                 then (if check_associated_image h mode \<noteq> 0
                       then (Inl InvalidAssociatedName, wld, out)
                       else readslide_finish h rslide
                              (poke rslide (\<lambda>r. r\<lparr>associated := Some mode\<rparr>) wld) out)
                 else readslide_finish h rslide wld out))"

subsection \<open>vips__openslide_read_file\<close>

text \<open>
  What the libvips calls of the two read functions return is not decided in this file:
  each flag says that the call of that name fails. \<^verbatim>\<open>im_open_local\<close> is given by its
  result, the new image or \<^verbatim>\<open>NULL\<close>.
\<close>

record host =
  pio_output_fails :: bool
  generate_fails :: bool
  tile_cache_fails :: bool
  wio_output_fails :: bool
  write_line_fails :: "int \<Rightarrow> bool"

text \<open>
  The result is the return value, the state, the image \<open>out\<close> and the image \<open>raw\<close>.
  The last argument of \<^verbatim>\<open>im_tile_cache\<close> is an \<^verbatim>\<open>int\<close>: the \<^verbatim>\<open>double\<close>
  \<^verbatim>\<open>1.5 * (1 + raw->Xsize / TILE_WIDTH)\<close> is converted.
\<close>

definition vips__openslide_read_file ::
  "host \<Rightarrow> VipsImage option \<Rightarrow> string \<Rightarrow> string \<Rightarrow> world \<Rightarrow> VipsImage
    \<Rightarrow> (error + unit) \<times> world \<times> VipsImage \<times> VipsImage option" where
  "vips__openslide_read_file hst local name mode wld0 out =
     (case local of
        None \<Rightarrow> (Inl HostFailure, wld0, out, None)
      | Some raw0 \<Rightarrow>
          (case readslide_new name mode wld0 raw0 of
             (Inl e, wld, raw) \<Rightarrow> (Inl e, wld, out, Some raw)
           | (Inr rslide, wld, raw) \<Rightarrow>
               if pio_output_fails hst \<or> generate_fails hst
               then (Inl HostFailure, wld, out, Some raw)
               else if tile_cache_fails hst
               then (Inl HostFailure, wld, out, Some (raw\<lparr>generate := Some rslide\<rparr>))
               else (Inr (), wld,
                     out\<lparr>tile_cache := Some (TILE_WIDTH, TILE_HEIGHT,
                       double_to_int (1.5 * real_of_int (1 + c_div (Xsize raw) TILE_WIDTH)))\<rparr>,
                     Some (raw\<lparr>generate := Some rslide\<rparr>))))"

subsection \<open>fill_region\<close>

record VipsRect =
  left :: int
  rect_top :: int
  width :: int
  height :: int

text \<open>
  A region: the rectangle \<^verbatim>\<open>valid\<close> and the pixels of its buffer, by their distance
  from the start of the buffer (\<open>None\<close>: not written yet).
\<close>

record VipsRegion =
  valid :: VipsRect
  pels :: "int \<Rightarrow> pixel option"

text \<open>
  Modelled from the spec: \<^verbatim>\<open>VIPS_REGION_ADDR\<close>, a macro of the libvips headers. The
  destination holds the samples "for exactly \<open>region\<close>'s extent, addressed row-major":
  pixel \<open>(X, Y)\<close> is \<open>(Y - top) * width + (X - left)\<close> pixels after the start.
\<close>

definition VIPS_REGION_ADDR :: "VipsRegion \<Rightarrow> int \<Rightarrow> int \<Rightarrow> int" where
  "VIPS_REGION_ADDR reg X Y =
     (Y - rect_top (valid reg)) * width (valid reg) + (X - left (valid reg))"

text \<open>
  \<^verbatim>\<open>openslide_read_region( osr, dest, x, y, layer, w, h )\<close> is given a pointer and the
  size of the region, no stride: the \<open>w * h\<close> pixels are stored one after the other from
  \<^verbatim>\<open>dest\<close> on, row after row, as \<^verbatim>\<open>vips__openslide_read_associated\<close> reads the buffer
  of \<^verbatim>\<open>openslide_read_associated_image\<close> (line \<open>y\<close> at \<^verbatim>\<open>buf + y * w\<close>).
\<close>

definition openslide_read_region ::
  "openslide_t \<Rightarrow> int \<Rightarrow> int \<Rightarrow> int \<Rightarrow> int \<Rightarrow> int \<Rightarrow> int \<Rightarrow> world \<times> VipsRegion
    \<Rightarrow> world \<times> VipsRegion" where
  "openslide_read_region h dest x y l w hh st =
     (case st of
        (wld, reg) \<Rightarrow>
          (wld\<lparr>reads := reads wld @ [(dest, x, y, l, w, hh)]\<rparr>,
           reg\<lparr>pels := (\<lambda>k. if dest \<le> k \<and> k < dest + w * hh
                            then Some (region_pel (content h) l x y
                                         ((k - dest) mod w) ((k - dest) div w))
                            else pels reg k)\<rparr>))"

text \<open>The inner loop of \<^verbatim>\<open>fill_region\<close>, from \<open>x\<close> on; \<open>r\<close> is \<^verbatim>\<open>&out->valid\<close>.\<close>

function fill_region_x ::
  "openslide_t \<Rightarrow> ReadSlide \<Rightarrow> VipsRect \<Rightarrow> int \<Rightarrow> int \<Rightarrow> world \<times> VipsRegion
    \<Rightarrow> world \<times> VipsRegion" where
  "fill_region_x h rs r y x st =
     (if x < width r
      then fill_region_x h rs r y (x + TILE_WIDTH)
             (openslide_read_region h
                (VIPS_REGION_ADDR (snd st) (left r + x) (rect_top r + y))
                (double_to_int (round_double (real_of_int (left r + x) * downsample rs)))
                (double_to_int (round_double (real_of_int (rect_top r + y) * downsample rs)))
                (sint (layer rs))
                (min TILE_WIDTH (width r - x))
                (min TILE_HEIGHT (height r - y)) st)
      else st)"
  by pat_completeness auto
termination
  by (relation "measure (\<lambda>(h, rs, r, y, x, st). nat (width r - x))")
    (auto simp: TILE_WIDTH_def)

text \<open>The outer loop, from \<open>y\<close> on.\<close>

function fill_region_y ::
  "openslide_t \<Rightarrow> ReadSlide \<Rightarrow> VipsRect \<Rightarrow> int \<Rightarrow> world \<times> VipsRegion
    \<Rightarrow> world \<times> VipsRegion" where
  "fill_region_y h rs r y st =
     (if y < height r
      then fill_region_y h rs r (y + TILE_HEIGHT) (fill_region_x h rs r y 0 st)
      else st)"
  by pat_completeness auto
termination
  by (relation "measure (\<lambda>(h, rs, r, y, st). nat (height r - y))")
    (auto simp: TILE_HEIGHT_def)

declare fill_region_x.simps [simp del]
declare fill_region_y.simps [simp del]

definition fill_region ::
  "VipsRegion \<Rightarrow> nat \<Rightarrow> world \<Rightarrow> (error + unit) \<times> world \<times> VipsRegion" where
  "fill_region out rslide wld =
     (case osr (heap wld rslide) of
        None \<Rightarrow> (Inl NullPointer, wld, out)
      | Some h \<Rightarrow>
          (case fill_region_y h (heap wld rslide) (valid out) 0 (wld, out) of
             (wld1, out1) \<Rightarrow>
               (case error_state (content h) of
                  Some e \<Rightarrow> (Inl (ReadFailure e), wld1, out1)
                | None \<Rightarrow> (Inr (), wld1, out1))))"

subsection \<open>The grid of chunks\<close>




subsection \<open>vips__openslide_read_associated\<close>

function write_lines ::
  "host \<Rightarrow> int \<Rightarrow> int \<Rightarrow> int \<Rightarrow> VipsImage \<Rightarrow> (error + unit) \<times> VipsImage" where
  "write_lines hst w hh y out =
     (if y < hh
      then (if write_line_fails hst y then (Inl HostFailure, out)
            else write_lines hst w hh (y + 1) (out\<lparr>lines := lines out @ [(y, y * w)]\<rparr>))
      else (Inr (), out))"
  by pat_completeness auto
termination
  by (relation "measure (\<lambda>(hst, w, hh, y, out). nat (hh - y))") auto

declare write_lines.simps [simp del]

text \<open>
  \<open>name\<close> and \<open>mode\<close> are the two parts of the filename again; the third parameter of
  the C function is only printed. The product \<open>w * h\<close> is taken exactly: the dimensions
  \<^verbatim>\<open>readslide_new\<close> accepts are at most \<^verbatim>\<open>INT_MAX\<close>.
\<close>

definition vips__openslide_read_associated ::
  "host \<Rightarrow> VipsImage option \<Rightarrow> string \<Rightarrow> string \<Rightarrow> world \<Rightarrow> VipsImage
    \<Rightarrow> (error + unit) \<times> world \<times> VipsImage \<times> VipsImage option" where
  "vips__openslide_read_associated hst local name mode wld0 out =
     (case local of
        None \<Rightarrow> (Inl HostFailure, wld0, out, None)
      | Some raw0 \<Rightarrow>
          (case readslide_new name mode wld0 raw0 of
             (Inl e, wld, raw) \<Rightarrow> (Inl e, wld, out, Some raw)
           | (Inr rslide, wld, raw) \<Rightarrow>
               (case osr (heap wld rslide) of
                  None \<Rightarrow> (Inl NullPointer, wld, out, Some raw)
                | Some h \<Rightarrow>
                    (case associated_image_dimensions (content h)
                            (associated (heap wld rslide)) of
                       (w, hh) \<Rightarrow>
                         if w = - 1 \<or> hh = - 1
                         then (Inl DimensionQuery, wld, out, Some raw)
                         else (let out1 = out\<lparr>arrays := arrays out @ [w * hh]\<rparr>;
                                   wld1 = wld\<lparr>image_reads :=
                                     image_reads wld @ [associated (heap wld rslide)]\<rparr>
                               in case error_state (content h) of
                                    Some e \<Rightarrow> (Inl (ReadFailure e), wld1, out1, Some raw)
                                  | None \<Rightarrow>
                                      if wio_output_fails hst
                                      then (Inl HostFailure, wld1, out1, Some raw)
                                      else (case write_lines hst w hh 0 out1 of
                                              (res, out2) \<Rightarrow> (res, wld1, out2, Some raw)))))))"

subsection \<open>The teardown of an image\<close>

text \<open>
  Modelled from the spec: the emission of the "close" signal, which libvips performs
  when an image is torn down. Each callback connected to the signal is invoked once, in
  the order of connection.
\<close>

definition vips_image_close :: "VipsImage \<Rightarrow> world \<Rightarrow> world" where
  "vips_image_close im wld = fold readslide_destroy_cb (close_cbs im) wld"

subsection \<open>The capacity rule of the specification\<close>

text \<open>
  The capacity rule in the words of the specification:
  \<open>capacity(imageWidth, tileEdge) = ceil(1.5 * ceil(imageWidth / tileEdge))\<close>.
\<close>

definition spec_capacity :: "int \<Rightarrow> int \<Rightarrow> int" where
  "spec_capacity imageWidth tileEdge =
     \<lceil>1.5 * real_of_int \<lceil>real_of_int imageWidth / real_of_int tileEdge\<rceil>\<rceil>"

subsection \<open>Inputs for the examples\<close>

text \<open>
  A slide with one layer of \<open>W\<close> by \<open>H\<close> pixels at downsample 1 and one associated image,
  "thumbnail", of 64 by 48. Pixel \<open>(X, Y)\<close> of the layer holds \<open>X + 65536 * Y\<close>.
\<close>

definition demo_slide :: "int \<Rightarrow> int \<Rightarrow> slide" where
  "demo_slide W H =
     \<lparr>layer_count = 1,
      layer_dimensions = (\<lambda>l. if l = 0 then (W, H) else (- 1, - 1)),
      layer_downsample = (\<lambda>l. if l = 0 then 1 else - 1),
      associated_image_names = [''thumbnail''],
      associated_image_dimensions = (\<lambda>n. if n = Some ''thumbnail'' then (64, 48) else (- 1, - 1)),
      property_names = [''openslide.vendor''],
      property_value = (\<lambda>p. if p = ''openslide.vendor'' then Some ''aperio'' else None),
      error_state = None,
      region_pel = (\<lambda>l x y i j. word_of_int (x + i + 65536 * (y + j))),
      associated_pel = (\<lambda>n k. word_of_int k)\<rparr>"

text \<open>A state in which the file "a.svs" is that slide and nothing has happened yet.\<close>

definition demo_world :: "slide \<Rightarrow> world" where
  "demo_world s =
     \<lparr>files = (\<lambda>n. if n = ''a.svs'' then Some s else None), opened = 0, closes = [],
      heap = (\<lambda>p. \<lparr>osr = None, associated = None, layer = 0, downsample = 0\<rparr>),
      allocated = 0, reads = [], image_reads = []\<rparr>"

definition new_image :: VipsImage where
  "new_image =
     \<lparr>Xsize = 1, Ysize = 1, Bands = 1, BandFmt = VIPS_FORMAT_NOTSET,
      Coding = VIPS_CODING_ERROR, Type = VIPS_INTERPRETATION_MULTIBAND, Xres = 0, Yres = 0,
      meta = Map.empty, dhint = VIPS_DEMAND_STYLE_ANY, close_cbs = [], generate = None,
      tile_cache = None, arrays = [], lines = []\<rparr>"

text \<open>A region of \<open>W\<close> by \<open>H\<close> pixels at the origin, nothing written to its buffer yet.\<close>

definition demo_region :: "int \<Rightarrow> int \<Rightarrow> VipsRegion" where
  "demo_region W H =
     \<lparr>valid = \<lparr>left = 0, rect_top = 0, width = W, height = H\<rparr>, pels = (\<lambda>k. None)\<rparr>"

definition good_host :: host where
  "good_host =
     \<lparr>pio_output_fails = False, generate_fails = False, tile_cache_fails = False,
      wio_output_fails = False, write_line_fails = (\<lambda>y. False)\<rparr>"

section \<open>Properties\<close>

subsection \<open>What the metadata calls leave alone\<close>

lemma vips_image_set_fields [simp]:
  "Xsize (vips_image_set f v im) = Xsize im"
  "Ysize (vips_image_set f v im) = Ysize im"
  "Bands (vips_image_set f v im) = Bands im"
  "BandFmt (vips_image_set f v im) = BandFmt im"
  "Coding (vips_image_set f v im) = Coding im"
  "Type (vips_image_set f v im) = Type im"
  "Xres (vips_image_set f v im) = Xres im"
  "Yres (vips_image_set f v im) = Yres im"
  "dhint (vips_image_set f v im) = dhint im"
  "close_cbs (vips_image_set f v im) = close_cbs im"
  "generate (vips_image_set f v im) = generate im"
  "tile_cache (vips_image_set f v im) = tile_cache im"
  "arrays (vips_image_set f v im) = arrays im"
  "lines (vips_image_set f v im) = lines im"
  by (simp_all add: vips_image_set_def)

lemma copy_properties_fields [simp]:
  "Xsize (copy_properties h ps im) = Xsize im"
  "Ysize (copy_properties h ps im) = Ysize im"
  "Bands (copy_properties h ps im) = Bands im"
  "BandFmt (copy_properties h ps im) = BandFmt im"
  "Coding (copy_properties h ps im) = Coding im"
  "Type (copy_properties h ps im) = Type im"
  "Xres (copy_properties h ps im) = Xres im"
  "Yres (copy_properties h ps im) = Yres im"
  "dhint (copy_properties h ps im) = dhint im"
  "close_cbs (copy_properties h ps im) = close_cbs im"
  "generate (copy_properties h ps im) = generate im"
  "tile_cache (copy_properties h ps im) = tile_cache im"
  "arrays (copy_properties h ps im) = arrays im"
  "lines (copy_properties h ps im) = lines im"
  by (induction ps arbitrary: im; simp)+

lemma readslide_header_fields [simp]:
  "Xsize (readslide_header h w hh im) = w"
  "Ysize (readslide_header h w hh im) = hh"
  "Bands (readslide_header h w hh im) = 4"
  "BandFmt (readslide_header h w hh im) = VIPS_FORMAT_UCHAR"
  "Coding (readslide_header h w hh im) = VIPS_CODING_NONE"
  "Type (readslide_header h w hh im) = VIPS_INTERPRETATION_RGB"
  "Xres (readslide_header h w hh im) = 1"
  "Yres (readslide_header h w hh im) = 1"
  "dhint (readslide_header h w hh im) = dhint im"
  "close_cbs (readslide_header h w hh im) = close_cbs im"
  "generate (readslide_header h w hh im) = generate im"
  "tile_cache (readslide_header h w hh im) = tile_cache im"
  "arrays (readslide_header h w hh im) = arrays im"
  "lines (readslide_header h w hh im) = lines im"
  by (simp_all add: readslide_header_def vips_image_init_fields_def)

lemma readslide_background_fields [simp]:
  "Xsize (readslide_background h im) = Xsize im"
  "Ysize (readslide_background h im) = Ysize im"
  "Bands (readslide_background h im) = Bands im"
  "BandFmt (readslide_background h im) = BandFmt im"
  "Coding (readslide_background h im) = Coding im"
  "Type (readslide_background h im) = Type im"
  "Xres (readslide_background h im) = Xres im"
  "Yres (readslide_background h im) = Yres im"
  "dhint (readslide_background h im) = dhint im"
  "close_cbs (readslide_background h im) = close_cbs im"
  "generate (readslide_background h im) = generate im"
  "tile_cache (readslide_background h im) = tile_cache im"
  "arrays (readslide_background h im) = arrays im"
  "lines (readslide_background h im) = lines im"
  by (simp_all add: readslide_background_def split: option.splits)

text \<open>The definitions a run on a concrete input unfolds.\<close>

lemmas run_defs =
  readslide_new_def openslide_open_def demo_world_def demo_slide_def Let_def strtol_def
  poke_def readslide_finish_def readslide_query_def readslide_background_def INT_MAX_def
  good_host_def OPENSLIDE_PROPERTY_NAME_BACKGROUND_COLOR_def is_sign_def is_minus_def
  is_digit_def digit_of_def isspace_def check_associated_image_def LONG_MAX_def LONG_MIN_def
  double_to_int_def c_div_def TILE_WIDTH_def TILE_HEIGHT_def

subsection \<open>The width of a header that readslide_new has set\<close>

lemma readslide_finish_Xsize:
  assumes "readslide_finish h p wld im = (Inr q, wld', im')"
  shows "0 \<le> Xsize im' \<and> Xsize im' \<le> INT_MAX"
  using assms
  by (auto simp: readslide_finish_def Let_def split: prod.splits if_splits)

lemma readslide_new_Xsize:
  assumes "readslide_new name mode wld im = (Inr q, wld', im')"
  shows "0 \<le> Xsize im' \<and> Xsize im' \<le> INT_MAX"
  using assms
  by (auto simp: readslide_new_def Let_def split: prod.splits option.splits if_splits
      dest: readslide_finish_Xsize)

lemma c_div_nonneg: "0 \<le> a \<Longrightarrow> c_div a TILE_WIDTH = a div 256"
  by (cases "a = 0") (simp_all add: c_div_def TILE_WIDTH_def)

lemma max_tiles_eq:
  assumes "0 \<le> a"
  shows "double_to_int (1.5 * real_of_int (1 + c_div a TILE_WIDTH)) = (3 * (1 + a div 256)) div 2"
proof -
  have n: "0 \<le> 1 + a div 256"
    using assms by (simp add: pos_imp_zdiv_nonneg_iff)
  have "1.5 * real_of_int (1 + a div 256) = real_of_int (3 * (1 + a div 256)) / real_of_int 2"
    by simp
  then have "\<lfloor>1.5 * real_of_int (1 + a div 256)\<rfloor> = (3 * (1 + a div 256)) div 2"
    by (simp only: floor_divide_of_int_eq)
  moreover have "0 \<le> 1.5 * real_of_int (1 + a div 256)"
    using n by simp
  ultimately show ?thesis
    using assms by (simp add: double_to_int_def c_div_nonneg)
qed

lemma floor_form_eq:
  "\<lfloor>1.5 * real_of_int (1 + \<lfloor>real_of_int a / real_of_int TILE_WIDTH\<rfloor>)\<rfloor> = (3 * (1 + a div 256)) div 2"
proof -
  have "\<lfloor>real_of_int a / real_of_int TILE_WIDTH\<rfloor> = a div 256"
    by (simp only: floor_divide_of_int_eq TILE_WIDTH_def)
  moreover have "1.5 * real_of_int (1 + a div 256) = real_of_int (3 * (1 + a div 256)) / real_of_int 2"
    by simp
  ultimately show ?thesis
    by (simp only: floor_divide_of_int_eq)
qed

subsection \<open>C2: the capacity of the tile cache\<close>

text \<open>
  C2, as the code has it. When \<^verbatim>\<open>vips__openslide_read_file\<close> succeeds, the tile cache
  it puts in front of the image \<open>raw\<close> has tiles of 256 by 256 and room for
  \<open>floor(1.5 * (1 + floor(imageWidth / 256)))\<close> of them, where \<open>imageWidth\<close> is the
  width \<^verbatim>\<open>readslide_new\<close> has stored in \<open>raw\<close> (between 0 and \<^verbatim>\<open>INT_MAX\<close>); for a
  width of 2000 that is 12 tiles.
\<close>

theorem read_file_cache_capacity:
  assumes "vips__openslide_read_file hst local name mode wld0 out0 = (Inr (), wld, out, Some raw)"
  shows "0 \<le> Xsize raw \<and> Xsize raw \<le> INT_MAX \<and>
         tile_cache out = Some (TILE_WIDTH, TILE_HEIGHT,
           \<lfloor>1.5 * real_of_int (1 + \<lfloor>real_of_int (Xsize raw) / real_of_int TILE_WIDTH\<rfloor>)\<rfloor>) \<and>
         (Xsize raw = 2000 \<longrightarrow> tile_cache out = Some (256, 256, 12))"
proof -
  from assms obtain raw0 p raw1 where
    new: "readslide_new name mode wld0 raw0 = (Inr p, wld, raw1)" and
    raw: "raw = raw1\<lparr>generate := Some p\<rparr>" and
    out: "out = out0\<lparr>tile_cache := Some (TILE_WIDTH, TILE_HEIGHT,
            double_to_int (1.5 * real_of_int (1 + c_div (Xsize raw1) TILE_WIDTH)))\<rparr>"
    by (auto simp: vips__openslide_read_file_def split: option.splits prod.splits sum.splits if_splits)
  from readslide_new_Xsize [OF new] have range: "0 \<le> Xsize raw1" "Xsize raw1 \<le> INT_MAX"
    by simp_all
  have x: "Xsize raw = Xsize raw1"
    by (simp add: raw)
  have m: "double_to_int (1.5 * real_of_int (1 + c_div (Xsize raw1) TILE_WIDTH))
      = (3 * (1 + Xsize raw1 div 256)) div 2"
    by (rule max_tiles_eq [OF range(1)])
  have cap: "tile_cache out = Some (TILE_WIDTH, TILE_HEIGHT, (3 * (1 + Xsize raw div 256)) div 2)"
    by (simp only: out x m) simp
  have a: "tile_cache out = Some (TILE_WIDTH, TILE_HEIGHT,
      \<lfloor>1.5 * real_of_int (1 + \<lfloor>real_of_int (Xsize raw) / real_of_int TILE_WIDTH\<rfloor>)\<rfloor>)"
    by (simp only: cap floor_form_eq)
  have b: "Xsize raw = 2000 \<longrightarrow> tile_cache out = Some (256, 256, 12)"
    by (simp add: cap TILE_WIDTH_def TILE_HEIGHT_def)
  have r: "0 \<le> Xsize raw" "Xsize raw \<le> INT_MAX"
    using range x by simp_all
  show ?thesis
    using r a b by blast
qed

theorem read_file_cache_capacity_witness:
  "case vips__openslide_read_file good_host (Some new_image) ''a.svs'' []
          (demo_world (demo_slide 2000 1000)) new_image of
     (res, wld, out, raw) \<Rightarrow> res = Inr () \<and> tile_cache out = Some (256, 256, 12)"
proof -
  obtain wld out raw where
    run: "vips__openslide_read_file good_host (Some new_image) ''a.svs'' []
            (demo_world (demo_slide 2000 1000)) new_image = (Inr (), wld, out, Some raw)"
    by (simp add: vips__openslide_read_file_def run_defs)
  have "Xsize raw = 2000"
    using run by (auto simp: vips__openslide_read_file_def run_defs)
  moreover from read_file_cache_capacity [OF run]
  have "Xsize raw = 2000 \<longrightarrow> tile_cache out = Some (256, 256, 12)"
    by blast
  ultimately have "tile_cache out = Some (256, 256, 12)"
    by blast
  then show ?thesis
    by (simp add: run)
qed

text \<open>
  The rule of the specification gives another number when the width is a multiple of
  the tile width: for a width of 256 the code keeps 3 tiles, the rule 2.
\<close>

theorem cache_capacity_counterexample:
  "(case vips__openslide_read_file good_host (Some new_image) ''a.svs'' []
           (demo_world (demo_slide 256 256)) new_image of
      (res, wld, out, raw) \<Rightarrow> res = Inr () \<and> tile_cache out = Some (256, 256, 3))
   \<and> spec_capacity 256 TILE_WIDTH = 2"
  by (simp add: vips__openslide_read_file_def run_defs spec_capacity_def)


subsection \<open>What readslide_new leaves alone\<close>

lemma readslide_query_frame:
  assumes "readslide_query h p wld im = (d, wld', im')"
  shows "osr (heap wld' q) = osr (heap wld q)"
    and "associated (heap wld' q) = associated (heap wld q)"
    and "layer (heap wld' q) = layer (heap wld q)"
    and "closes wld' = closes wld"
    and "opened wld' = opened wld"
    and "close_cbs im' = close_cbs im"
    and "generate im' = generate im"
    and "arrays im' = arrays im"
  using assms
  by (auto simp: readslide_query_def poke_def split: option.splits)

lemma readslide_finish_frame:
  assumes "readslide_finish h p wld im = (res, wld', im')"
  shows "osr (heap wld' q) = osr (heap wld q)"
    and "associated (heap wld' q) = associated (heap wld q)"
    and "layer (heap wld' q) = layer (heap wld q)"
    and "closes wld' = closes wld"
    and "opened wld' = opened wld"
    and "close_cbs im' = close_cbs im"
    and "generate im' = generate im"
    and "arrays im' = arrays im"
  using assms
  by (auto simp: readslide_finish_def Let_def split: prod.splits if_splits
      dest: readslide_query_frame)

text \<open>
  However \<^verbatim>\<open>readslide_new\<close> returns, the callback is connected, nothing has been
  closed, and the struct holds the handle exactly when the open succeeded.
\<close>

lemma readslide_new_state:
  assumes "readslide_new name mode wld0 out0 = (res, wld1, out1)"
  shows "close_cbs out1 = close_cbs out0 @ [allocated wld0]"
    and "closes wld1 = closes wld0"
    and "osr (heap wld1 (allocated wld0)) =
          (case files wld0 name of
             None \<Rightarrow> None
           | Some s \<Rightarrow> Some \<lparr>handle = opened wld0, content = s\<rparr>)"
    and "opened wld1 = (case files wld0 name of None \<Rightarrow> opened wld0 | Some s \<Rightarrow> opened wld0 + 1)"
    and "(res = Inl OpenFailure) = (files wld0 name = None)"
proof -
  show "close_cbs out1 = close_cbs out0 @ [allocated wld0]"
    using assms
    by (auto simp: readslide_new_def openslide_open_def Let_def
        split: option.splits if_splits dest: readslide_finish_frame(6))
  show "closes wld1 = closes wld0"
    using assms
    by (auto simp: readslide_new_def openslide_open_def poke_def Let_def
        split: option.splits if_splits dest: readslide_finish_frame(4))
  show "osr (heap wld1 (allocated wld0)) =
          (case files wld0 name of
             None \<Rightarrow> None
           | Some s \<Rightarrow> Some \<lparr>handle = opened wld0, content = s\<rparr>)"
    using assms
    by (auto simp: readslide_new_def openslide_open_def poke_def Let_def
        split: option.splits if_splits dest: readslide_finish_frame(1) [where q = "allocated wld0"])
  show "opened wld1 = (case files wld0 name of None \<Rightarrow> opened wld0 | Some s \<Rightarrow> opened wld0 + 1)"
    using assms
    by (auto simp: readslide_new_def openslide_open_def poke_def Let_def
        split: option.splits if_splits dest: readslide_finish_frame(5))
  show "(res = Inl OpenFailure) = (files wld0 name = None)"
    using assms
    by (auto simp: readslide_new_def openslide_open_def poke_def Let_def readslide_finish_def
        split: option.splits if_splits prod.splits)
qed

subsection \<open>C5: the slide is closed exactly once\<close>

lemma readslide_destroy_cb_noop:
  "osr (heap w p) = None \<Longrightarrow> readslide_destroy_cb p w = w"
  by (simp add: readslide_destroy_cb_def)

lemma readslide_destroy_cb_clears:
  "osr (heap (readslide_destroy_cb p w) p) = None"
  by (simp add: readslide_destroy_cb_def poke_def openslide_close_def split: option.splits)

lemma readslide_destroy_cb_closes:
  "closes (readslide_destroy_cb p w) =
     closes w @ (case osr (heap w p) of None \<Rightarrow> [] | Some h \<Rightarrow> [handle h])"
  by (simp add: readslide_destroy_cb_def poke_def openslide_close_def split: option.splits)

text \<open>
  C5. Take an image with no close callback yet and any call of \<^verbatim>\<open>readslide_new\<close> on it,
  whatever it returns (success, a failing open, or a failure found after the open, such
  as an invalid layer). The destroy callback is connected to the image (it is connected
  before the open, so before every validation), nothing is closed during construction,
  the teardown of the image closes the handle of this open exactly once if the open
  succeeded and closes nothing if it failed, and a second teardown changes nothing. The
  callback does nothing on a struct with no handle and leaves a struct with no handle.
\<close>

theorem readslide_closed_once:
  assumes "close_cbs out0 = []"
    and "readslide_new name mode wld0 out0 = (res, wld1, out1)"
  shows "close_cbs out1 = [allocated wld0] \<and>
         closes wld1 = closes wld0 \<and>
         closes (vips_image_close out1 wld1) =
           closes wld0 @ (case files wld0 name of None \<Rightarrow> [] | Some s \<Rightarrow> [opened wld0]) \<and>
         vips_image_close out1 (vips_image_close out1 wld1) = vips_image_close out1 wld1 \<and>
         (\<forall>p w. osr (heap w p) = None \<longrightarrow> readslide_destroy_cb p w = w) \<and>
         (\<forall>p w. osr (heap (readslide_destroy_cb p w) p) = None)"
proof -
  let ?p = "allocated wld0"
  have cbs: "close_cbs out1 = [?p]"
    using readslide_new_state(1) [OF assms(2)] assms(1) by simp
  have same: "closes wld1 = closes wld0"
    by (rule readslide_new_state(2) [OF assms(2)])
  have held: "osr (heap wld1 ?p) =
      (case files wld0 name of None \<Rightarrow> None | Some s \<Rightarrow> Some \<lparr>handle = opened wld0, content = s\<rparr>)"
    by (rule readslide_new_state(3) [OF assms(2)])
  have once: "closes (vips_image_close out1 wld1) =
      closes wld0 @ (case files wld0 name of None \<Rightarrow> [] | Some s \<Rightarrow> [opened wld0])"
    by (simp add: vips_image_close_def cbs readslide_destroy_cb_closes held same
        split: option.splits)
  have again: "vips_image_close out1 (vips_image_close out1 wld1) = vips_image_close out1 wld1"
    by (simp add: vips_image_close_def cbs readslide_destroy_cb_noop readslide_destroy_cb_clears)
  show ?thesis
    using cbs same once again readslide_destroy_cb_noop readslide_destroy_cb_clears by blast
qed

theorem readslide_closed_once_witness:
  "case readslide_new ''a.svs'' ''7'' (demo_world (demo_slide 100 100)) new_image of
     (res, wld1, out1) \<Rightarrow>
       res = Inl InvalidLayer \<and> close_cbs out1 = [0] \<and> closes wld1 = [] \<and>
       closes (vips_image_close out1 wld1) = [0] \<and>
       closes (vips_image_close out1 (vips_image_close out1 wld1)) = [0]"
proof -
  obtain res wld1 out1 where
    run: "readslide_new ''a.svs'' ''7'' (demo_world (demo_slide 100 100)) new_image
            = (res, wld1, out1)"
    by (cases "readslide_new ''a.svs'' ''7'' (demo_world (demo_slide 100 100)) new_image")
  have res: "res = Inl InvalidLayer"
    using run by (simp add: run_defs)
  have "close_cbs new_image = []"
    by (simp add: new_image_def)
  from readslide_closed_once [OF this run]
  have "close_cbs out1 = [0]" and "closes wld1 = []"
    and "closes (vips_image_close out1 wld1) = [0]"
    and "vips_image_close out1 (vips_image_close out1 wld1) = vips_image_close out1 wld1"
    by (simp_all add: demo_world_def)
  then show ?thesis
    by (simp add: run res)
qed


subsection \<open>The ways through readslide_new\<close>

text \<open>
  \<^verbatim>\<open>readslide_new\<close> either fails to open the slide, or rejects the layer, or rejects
  the name, or goes on to the dimension query with the selection stored in the struct:
  the layer \<^verbatim>\<open>strtol\<close> has read (0 when the mode is empty or a name), and the name when
  the mode is not empty and is not a number to its end.
\<close>

lemma readslide_new_cases:
  assumes run: "readslide_new name mode wld0 out0 = (res, wld1, out1)"
  obtains
    (open_failed) "files wld0 name = None" "res = Inl OpenFailure"
  | (bad_layer) s where "files wld0 name = Some s" "mode \<noteq> []" "snd (strtol mode) = []"
      "sint (word_of_int (fst (strtol mode)) :: int32_t) < 0
        \<or> layer_count s \<le> sint (word_of_int (fst (strtol mode)) :: int32_t)"
      "res = Inl InvalidLayer"
  | (bad_name) s where "files wld0 name = Some s" "mode \<noteq> []" "snd (strtol mode) \<noteq> []"
      "check_associated_image_loop (associated_image_names s) mode \<noteq> 0"
      "res = Inl InvalidAssociatedName"
  | (finish) h wld where "files wld0 name = Some (content h)" "handle h = opened wld0"
      "readslide_finish h (allocated wld0) wld
         (out0\<lparr>close_cbs := close_cbs out0 @ [allocated wld0]\<rparr>) = (res, wld1, out1)"
      "osr (heap wld (allocated wld0)) = Some h"
      "layer (heap wld (allocated wld0)) = word_of_int (fst (strtol mode))"
      "downsample (heap wld (allocated wld0)) = 0"
      "associated (heap wld (allocated wld0)) =
         (if mode \<noteq> [] \<and> snd (strtol mode) \<noteq> [] then Some mode else None)"
      "mode \<noteq> [] \<Longrightarrow> snd (strtol mode) = [] \<Longrightarrow>
         0 \<le> sint (word_of_int (fst (strtol mode)) :: int32_t)
         \<and> sint (word_of_int (fst (strtol mode)) :: int32_t) < layer_count (content h)"
      "mode \<noteq> [] \<Longrightarrow> snd (strtol mode) \<noteq> [] \<Longrightarrow>
         check_associated_image_loop (associated_image_names (content h)) mode = 0"
proof (cases "files wld0 name")
  case None
  with run have "res = Inl OpenFailure"
    by (simp add: readslide_new_def openslide_open_def Let_def)
  with None show thesis
    by (rule open_failed)
next
  case (Some s)
  define p where "p = allocated wld0"
  define h where "h = \<lparr>handle = opened wld0, content = s\<rparr>"
  define out where "out = out0\<lparr>close_cbs := close_cbs out0 @ [p]\<rparr>"
  define wld where "wld =
    poke p (\<lambda>r. r\<lparr>layer := word_of_int (fst (strtol mode))\<rparr>)
      (poke p (\<lambda>r. r\<lparr>osr := Some h\<rparr>)
        (wld0\<lparr>allocated := allocated wld0 + 1,
              heap := (heap wld0)
                (p := \<lparr>osr = None, associated = None, layer = 0, downsample = 0\<rparr>),
              opened := opened wld0 + 1\<rparr>))"
  have hp: "heap wld p = \<lparr>osr = Some h, associated = None,
      layer = word_of_int (fst (strtol mode)), downsample = 0\<rparr>"
    by (simp add: wld_def poke_def)
  have eq: "readslide_new name mode wld0 out0 =
    (if mode \<noteq> [] \<and> snd (strtol mode) = []
     then (if sint (layer (heap wld p)) < 0 \<or> layer_count (content h) \<le> sint (layer (heap wld p))
           then (Inl InvalidLayer, wld, out)
           else readslide_finish h p wld out)
     else if mode \<noteq> []
     then (if check_associated_image h mode \<noteq> 0
           then (Inl InvalidAssociatedName, wld, out)
           else readslide_finish h p (poke p (\<lambda>r. r\<lparr>associated := Some mode\<rparr>) wld) out)
     else readslide_finish h p wld out)"
    unfolding readslide_new_def openslide_open_def Let_def wld_def out_def h_def p_def
    by (simp add: Some)
  have hs: "files wld0 name = Some (content h)" "handle h = opened wld0" "content h = s"
    by (simp_all add: h_def Some)
  show thesis
  proof (cases "mode \<noteq> [] \<and> snd (strtol mode) = []")
    case True
    show thesis
    proof (cases "sint (layer (heap wld p)) < 0
        \<or> layer_count (content h) \<le> sint (layer (heap wld p))")
      case bad: True
      with True run eq have "res = Inl InvalidLayer"
        by simp
      with True bad show thesis
        using bad_layer [of s] Some hp hs by simp
    next
      case good: False
      with True run eq have "readslide_finish h p wld out = (res, wld1, out1)"
        by simp
      then show thesis
        using finish [of h wld] True good hp hs unfolding p_def out_def by simp
    qed
  next
    case notnum: False
    show thesis
    proof (cases "mode \<noteq> []")
      case True
      with notnum have rest: "snd (strtol mode) \<noteq> []"
        by simp
      show thesis
      proof (cases "check_associated_image h mode \<noteq> 0")
        case bad: True
        with True notnum run eq have "res = Inl InvalidAssociatedName"
          by simp
        with True rest bad show thesis
          using bad_name [of s] Some hs by (simp add: check_associated_image_def)
      next
        case good: False
        with True notnum run eq
        have "readslide_finish h p (poke p (\<lambda>r. r\<lparr>associated := Some mode\<rparr>) wld) out
            = (res, wld1, out1)"
          by simp
        then show thesis
          using finish [of h "poke p (\<lambda>r. r\<lparr>associated := Some mode\<rparr>) wld"]
            True rest good hp hs unfolding p_def out_def
          by (simp add: poke_def check_associated_image_def)
      qed
    next
      case False
      with run eq have "readslide_finish h p wld out = (res, wld1, out1)"
        by simp
      then show thesis
        using finish [of h wld] False hp hs unfolding p_def out_def by simp
    qed
  qed
qed

subsection \<open>C3: the validation comes after the background colour\<close>









subsection \<open>C4: the header and the demand hint\<close>

lemma readslide_query_hint:
  assumes "readslide_query h p wld im = (d, wld', im')"
  shows "dhint im' = (case associated (heap wld p) of
           Some a \<Rightarrow> VIPS_DEMAND_STYLE_THINSTRIP | None \<Rightarrow> VIPS_DEMAND_STYLE_SMALLTILE)"
    and "d = (case associated (heap wld p) of
           Some a \<Rightarrow> associated_image_dimensions (content h) (Some a)
         | None \<Rightarrow> layer_dimensions (content h) (sint (layer (heap wld p))))"
    and "tile_cache im' = tile_cache im" and "lines im' = lines im"
  using assms
  by (auto simp: readslide_query_def vips_image_set_def split: option.splits)

lemma readslide_finish_done:
  assumes "readslide_finish h p wld im = (Inr q, wld', im')"
  shows "q = p"
    and "Bands im' = 4" and "BandFmt im' = VIPS_FORMAT_UCHAR" and "Coding im' = VIPS_CODING_NONE"
    and "Type im' = VIPS_INTERPRETATION_RGB" and "Xres im' = 1" and "Yres im' = 1"
    and "dhint im' = (case associated (heap wld p) of
           Some a \<Rightarrow> VIPS_DEMAND_STYLE_THINSTRIP | None \<Rightarrow> VIPS_DEMAND_STYLE_SMALLTILE)"
    and "(Xsize im', Ysize im') = (case associated (heap wld p) of
           Some a \<Rightarrow> associated_image_dimensions (content h) (Some a)
         | None \<Rightarrow> layer_dimensions (content h) (sint (layer (heap wld p))))"
    and "0 \<le> Xsize im'" and "Xsize im' \<le> INT_MAX" and "0 \<le> Ysize im'" and "Ysize im' \<le> INT_MAX"
  using assms
  by (auto simp: readslide_finish_def Let_def
      split: prod.splits if_splits dest: readslide_query_hint(1,2))

text \<open>
  C4, as the code has it. When \<^verbatim>\<open>readslide_new\<close> succeeds, in layer mode and in
  associated mode alike, the header of the image is initialised with the dimensions of
  the selected image, 4 bands, unsigned 8-bit samples, no coding, the RGB interpretation
  and resolution 1; the demand hint is "small tile" in layer mode and "thin strip" in
  associated mode; and no generate callback is registered by \<^verbatim>\<open>readslide_new\<close> in either
  mode (the field is as it was).
\<close>

theorem readslide_new_header:
  assumes "readslide_new name mode wld0 out0 = (Inr p, wld1, out1)"
  shows "Bands out1 = 4 \<and> BandFmt out1 = VIPS_FORMAT_UCHAR \<and> Coding out1 = VIPS_CODING_NONE \<and>
         Type out1 = VIPS_INTERPRETATION_RGB \<and> Xres out1 = 1 \<and> Yres out1 = 1 \<and>
         generate out1 = generate out0 \<and>
         (\<exists>s. files wld0 name = Some s \<and>
           (case associated (heap wld1 p) of
              None \<Rightarrow> dhint out1 = VIPS_DEMAND_STYLE_SMALLTILE \<and>
                (Xsize out1, Ysize out1) = layer_dimensions s (sint (layer (heap wld1 p)))
            | Some a \<Rightarrow> dhint out1 = VIPS_DEMAND_STYLE_THINSTRIP \<and>
                (Xsize out1, Ysize out1) = associated_image_dimensions s (Some a)))"
  using assms
proof (cases rule: readslide_new_cases)
  case (finish h wld)
  note fin = finish(3)
  have p: "p = allocated wld0"
    by (rule readslide_finish_done(1) [OF fin])
  have a: "associated (heap wld1 p) = associated (heap wld p)"
    and l: "layer (heap wld1 p) = layer (heap wld p)"
    and g: "generate out1 = generate out0"
    using readslide_finish_frame(2,3,7) [OF fin] by simp_all
  show ?thesis
    using readslide_finish_done(2-9) [OF fin] finish(1) a l g unfolding p [symmetric]
    by (auto split: option.splits)
qed simp_all

theorem readslide_new_header_witness:
  "case readslide_new ''a.svs'' ''0'' (demo_world (demo_slide 2000 1000)) new_image of
     (res, wld1, out1) \<Rightarrow>
       res = Inr 0 \<and> Bands out1 = 4 \<and> BandFmt out1 = VIPS_FORMAT_UCHAR \<and>
       Type out1 = VIPS_INTERPRETATION_RGB \<and> Xres out1 = 1 \<and> Yres out1 = 1 \<and>
       generate out1 = None \<and> dhint out1 = VIPS_DEMAND_STYLE_SMALLTILE \<and>
       Xsize out1 = 2000 \<and> Ysize out1 = 1000"
proof -
  obtain wld1 out1 where
    run: "readslide_new ''a.svs'' ''0'' (demo_world (demo_slide 2000 1000)) new_image
            = (Inr 0, wld1, out1)"
    by (simp add: run_defs)
  have sel: "associated (heap wld1 0) = None" "layer (heap wld1 0) = 0"
    using run by (auto simp: run_defs)
  have "files (demo_world (demo_slide 2000 1000)) ''a.svs'' = Some (demo_slide 2000 1000)"
    and "layer_dimensions (demo_slide 2000 1000) 0 = (2000, 1000)"
    and "generate new_image = None"
    by (simp_all add: demo_world_def demo_slide_def new_image_def)
  with readslide_new_header [OF run] sel
  have "Bands out1 = 4" and "BandFmt out1 = VIPS_FORMAT_UCHAR"
    and "Type out1 = VIPS_INTERPRETATION_RGB" and "Xres out1 = 1" and "Yres out1 = 1"
    and "generate out1 = None" and "dhint out1 = VIPS_DEMAND_STYLE_SMALLTILE"
    and "Xsize out1 = 2000" and "Ysize out1 = 1000"
    by auto
  then show ?thesis
    by (simp add: run)
qed

text \<open>
  The claim as stated fails in associated mode: opening the associated image
  "thumbnail" (64 by 48) initialises the header of an image that had one band and no
  format, and sets the demand hint.
\<close>

theorem readslide_new_header_counterexample:
  "case readslide_new ''a.svs'' ''thumbnail'' (demo_world (demo_slide 2000 1000)) new_image of
     (res, wld1, out1) \<Rightarrow>
       res = Inr 0 \<and> associated (heap wld1 0) = Some ''thumbnail'' \<and>
       Bands new_image = 1 \<and> BandFmt new_image = VIPS_FORMAT_NOTSET \<and>
       Xsize out1 = 64 \<and> Ysize out1 = 48 \<and> Bands out1 = 4 \<and>
       BandFmt out1 = VIPS_FORMAT_UCHAR \<and> Type out1 = VIPS_INTERPRETATION_RGB \<and>
       dhint out1 = VIPS_DEMAND_STYLE_THINSTRIP \<and> generate out1 = None"
  by (simp add: run_defs new_image_def)


subsection \<open>The result of the dimension checks\<close>

lemma readslide_finish_result:
  "fst (readslide_finish h p wld im) =
     (case associated (heap wld p) of
        Some a \<Rightarrow>
          (case associated_image_dimensions (content h) (Some a) of
             (w, hh) \<Rightarrow>
               if w < 0 \<or> hh < 0 \<or> downsample (heap wld p) < 0 then Inl DimensionQuery
               else if INT_MAX < w \<or> INT_MAX < hh then Inl DimensionOverflow
               else Inr p)
      | None \<Rightarrow>
          (case layer_dimensions (content h) (sint (layer (heap wld p))) of
             (w, hh) \<Rightarrow>
               if w < 0 \<or> hh < 0 \<or> layer_downsample (content h) (sint (layer (heap wld p))) < 0
               then Inl DimensionQuery
               else if INT_MAX < w \<or> INT_MAX < hh then Inl DimensionOverflow
               else Inr p))"
  by (simp add: readslide_finish_def readslide_query_def poke_def Let_def
      split: option.splits prod.splits)

lemma sint_int32_fits:
  "- 2147483648 \<le> n \<Longrightarrow> n \<le> 2147483647 \<Longrightarrow> sint (word_of_int n :: int32_t) = n"
  by (simp add: sint_sbintrunc' signed_take_bit_int_eq_self)

lemma check_associated_image_loop_member:
  "(check_associated_image_loop names name = 0) = (name \<in> set names)"
  by (induction names) auto

lemma readslide_new_layer_field:
  assumes "readslide_new name mode wld0 out0 = (res, wld1, out1)"
    and "files wld0 name = Some s"
  shows "layer (heap wld1 (allocated wld0)) = word_of_int (fst (strtol mode))"
  using assms
  by (auto simp: readslide_new_def openslide_open_def poke_def Let_def
      split: option.splits if_splits dest: readslide_finish_frame(3) [where q = "allocated wld0"])

lemma strtol_range: "LONG_MIN \<le> fst (strtol s) \<and> fst (strtol s) \<le> LONG_MAX"
  by (simp add: strtol_def Let_def LONG_MIN_def LONG_MAX_def)

subsection \<open>C6: a mode that is a layer number\<close>

text \<open>
  C6, as the code has it. Let the backend open the slide and let the mode be, to its
  end, an integer \<open>n\<close> that fits 32 bits. Then \<^verbatim>\<open>readslide_new\<close> fails with
  \<open>InvalidLayer\<close> exactly when \<open>n\<close> is not in \<open>0 \<le> n < layerCount\<close>; it succeeds
  exactly when \<open>n\<close> is in that range and the backend reports for layer \<open>n\<close> a width and a
  height between 0 and \<^verbatim>\<open>INT_MAX\<close> and a downsample that is not negative; in the
  remaining case it fails with \<open>DimensionQuery\<close> or \<open>DimensionOverflow\<close>.
\<close>

theorem readslide_new_layer_number:
  assumes "files wld0 name = Some s" and "mode \<noteq> []" and "strtol mode = (n, [])"
    and "- 2147483648 \<le> n" and "n \<le> 2147483647"
    and "readslide_new name mode wld0 out0 = (res, wld1, out1)"
  shows "((res = Inl InvalidLayer) = (n < 0 \<or> layer_count s \<le> n)) \<and>
         ((\<exists>p. res = Inr p) =
            (0 \<le> n \<and> n < layer_count s \<and>
             0 \<le> fst (layer_dimensions s n) \<and> fst (layer_dimensions s n) \<le> INT_MAX \<and>
             0 \<le> snd (layer_dimensions s n) \<and> snd (layer_dimensions s n) \<le> INT_MAX \<and>
             0 \<le> layer_downsample s n)) \<and>
         (res = Inl InvalidLayer \<or> res = Inl DimensionQuery \<or> res = Inl DimensionOverflow
            \<or> (\<exists>p. res = Inr p))"
proof -
  have n: "sint (word_of_int (fst (strtol mode)) :: int32_t) = n"
    using assms(3-5) by (simp add: sint_int32_fits)
  have e: "snd (strtol mode) = []"
    using assms(3) by simp
  from assms(6) show ?thesis
  proof (cases rule: readslide_new_cases)
    case open_failed
    with assms(1) show ?thesis by simp
  next
    case (bad_layer s')
    with assms(1) n show ?thesis by auto
  next
    case (bad_name s')
    with e show ?thesis by simp
  next
    case (finish h wld)
    have s: "content h = s"
      using finish(1) assms(1) by simp
    have ok: "0 \<le> n \<and> n < layer_count s"
      using finish(8) assms(2) e n s by simp
    have "res = fst (readslide_finish h (allocated wld0) wld
        (out0\<lparr>close_cbs := close_cbs out0 @ [allocated wld0]\<rparr>))"
      by (simp add: finish(3))
    then show ?thesis
      using ok finish(5,7) e n s
      by (auto simp: readslide_finish_result split: prod.splits if_splits)
  qed
qed

theorem readslide_new_layer_number_witness:
  "strtol ''0'' = (0, []) \<and> layer_count (demo_slide 2000 1000) = 1 \<and>
   fst (readslide_new ''a.svs'' ''0'' (demo_world (demo_slide 2000 1000)) new_image) = Inr 0 \<and>
   strtol ''1'' = (1, []) \<and>
   fst (readslide_new ''a.svs'' ''1'' (demo_world (demo_slide 2000 1000)) new_image)
     = Inl InvalidLayer"
proof -
  have f: "files (demo_world (demo_slide 2000 1000)) ''a.svs'' = Some (demo_slide 2000 1000)"
    by (simp add: demo_world_def)
  have s0: "strtol ''0'' = (0, [])" and s1: "strtol ''1'' = (1, [])"
    by (simp_all add: run_defs)
  obtain r0 w0 o0 where
    run0: "readslide_new ''a.svs'' ''0'' (demo_world (demo_slide 2000 1000)) new_image
             = (r0, w0, o0)"
    by (rule prod_cases3)
  obtain r1 w1 o1 where
    run1: "readslide_new ''a.svs'' ''1'' (demo_world (demo_slide 2000 1000)) new_image
             = (r1, w1, o1)"
    by (rule prod_cases3)
  have "\<exists>p. r0 = Inr p"
    using readslide_new_layer_number [OF f _ s0 _ _ run0]
    by (simp add: demo_slide_def INT_MAX_def)
  moreover have "r0 = Inr 0 \<or> (\<forall>p. r0 \<noteq> Inr p)"
    using run0 by (auto simp: run_defs)
  ultimately have "r0 = Inr 0"
    by blast
  moreover have "r1 = Inl InvalidLayer"
    using readslide_new_layer_number [OF f _ s1 _ _ run1]
    by (simp add: demo_slide_def)
  moreover have "layer_count (demo_slide 2000 1000) = 1"
    by (simp add: demo_slide_def)
  ultimately show ?thesis
    using s0 s1 by (simp add: run0 run1)
qed

text \<open>
  The claim as stated fails: layer 0 of a slide with one layer is in range, but when
  the backend reports its dimensions as \<open>(-1, -1)\<close> the open does not succeed.
\<close>

theorem readslide_new_layer_number_counterexample:
  "strtol ''0'' = (0, []) \<and> layer_count (demo_slide (- 1) (- 1)) = 1 \<and>
   fst (readslide_new ''a.svs'' ''0'' (demo_world (demo_slide (- 1) (- 1))) new_image)
     = Inl DimensionQuery"
  by (simp add: run_defs)

subsection \<open>C7: a mode that is a name\<close>

text \<open>
  C7, as the code has it. Let the backend open the slide and let the mode be not
  empty and not an integer to its end. Then \<^verbatim>\<open>readslide_new\<close> fails with
  \<open>InvalidAssociatedName\<close> exactly when the mode is not one of the names the backend
  lists; it succeeds exactly when the mode is one of them and the backend reports for
  it a width and a height between 0 and \<^verbatim>\<open>INT_MAX\<close>; in the remaining case it fails
  with \<open>DimensionQuery\<close> or \<open>DimensionOverflow\<close>.
\<close>

theorem readslide_new_associated_name:
  assumes "files wld0 name = Some s" and "mode \<noteq> []" and "snd (strtol mode) \<noteq> []"
    and "readslide_new name mode wld0 out0 = (res, wld1, out1)"
  shows "((res = Inl InvalidAssociatedName) = (mode \<notin> set (associated_image_names s))) \<and>
         ((\<exists>p. res = Inr p) =
            (mode \<in> set (associated_image_names s) \<and>
             0 \<le> fst (associated_image_dimensions s (Some mode)) \<and>
             fst (associated_image_dimensions s (Some mode)) \<le> INT_MAX \<and>
             0 \<le> snd (associated_image_dimensions s (Some mode)) \<and>
             snd (associated_image_dimensions s (Some mode)) \<le> INT_MAX)) \<and>
         (res = Inl InvalidAssociatedName \<or> res = Inl DimensionQuery
            \<or> res = Inl DimensionOverflow \<or> (\<exists>p. res = Inr p))"
  using assms(4)
proof (cases rule: readslide_new_cases)
  case open_failed
  with assms(1) show ?thesis by simp
next
  case (bad_layer s')
  with assms(3) show ?thesis by simp
next
  case (bad_name s')
  with assms(1) show ?thesis
    by (auto simp: check_associated_image_loop_member)
next
  case (finish h wld)
  have s: "content h = s"
    using finish(1) assms(1) by simp
  have listed: "mode \<in> set (associated_image_names s)"
    using finish(9) assms(2,3) s by (simp add: check_associated_image_loop_member)
  have "res = fst (readslide_finish h (allocated wld0) wld
      (out0\<lparr>close_cbs := close_cbs out0 @ [allocated wld0]\<rparr>))"
    by (simp add: finish(3))
  then show ?thesis
    using listed finish(6,7) assms(2,3) s
    by (auto simp: readslide_finish_result split: prod.splits if_splits)
qed

theorem readslide_new_associated_name_witness:
  "snd (strtol ''thumbnail'') = ''thumbnail'' \<and>
   fst (readslide_new ''a.svs'' ''thumbnail'' (demo_world (demo_slide 2000 1000)) new_image)
     = Inr 0 \<and>
   snd (strtol ''label'') = ''label'' \<and>
   fst (readslide_new ''a.svs'' ''label'' (demo_world (demo_slide 2000 1000)) new_image)
     = Inl InvalidAssociatedName"
proof -
  have f: "files (demo_world (demo_slide 2000 1000)) ''a.svs'' = Some (demo_slide 2000 1000)"
    by (simp add: demo_world_def)
  have s0: "snd (strtol ''thumbnail'') = ''thumbnail''"
    and s1: "snd (strtol ''label'') = ''label''"
    by (simp_all add: run_defs)
  obtain r0 w0 o0 where
    run0: "readslide_new ''a.svs'' ''thumbnail'' (demo_world (demo_slide 2000 1000)) new_image
             = (r0, w0, o0)"
    by (rule prod_cases3)
  obtain r1 w1 o1 where
    run1: "readslide_new ''a.svs'' ''label'' (demo_world (demo_slide 2000 1000)) new_image
             = (r1, w1, o1)"
    by (rule prod_cases3)
  have "\<exists>p. r0 = Inr p"
    using readslide_new_associated_name [OF f _ _ run0] s0
    by (simp add: demo_slide_def INT_MAX_def)
  moreover have "r0 = Inr 0 \<or> (\<forall>p. r0 \<noteq> Inr p)"
    using run0 by (auto simp: run_defs)
  ultimately have "r0 = Inr 0"
    by blast
  moreover have "r1 = Inl InvalidAssociatedName"
    using readslide_new_associated_name [OF f _ _ run1] s1
    by (simp add: demo_slide_def)
  ultimately show ?thesis
    using s0 s1 by (simp add: run0 run1)
qed

text \<open>
  The claim as stated fails: "thumbnail" is one of the names the backend lists, but
  when the backend reports its dimensions as \<open>(-1, -1)\<close> the open does not succeed.
\<close>

theorem readslide_new_associated_name_counterexample:
  "''thumbnail'' \<in> set (associated_image_names
      ((demo_slide 2000 1000)\<lparr>associated_image_dimensions := (\<lambda>n. (- 1, - 1))\<rparr>)) \<and>
   snd (strtol ''thumbnail'') \<noteq> [] \<and>
   fst (readslide_new ''a.svs'' ''thumbnail''
          (demo_world ((demo_slide 2000 1000)\<lparr>associated_image_dimensions := (\<lambda>n. (- 1, - 1))\<rparr>))
          new_image)
     = Inl DimensionQuery"
  by (simp add: run_defs)

subsection \<open>C9: a layer number that does not fit 32 bits\<close>

text \<open>
  C9, as the code has it. Let the backend open the slide and let the mode be, to its
  end, an integer; \<open>v\<close> is what \<^verbatim>\<open>strtol\<close> returns for it, the value of the digits
  brought into the range of \<^verbatim>\<open>long\<close> (64 bits here). The layer \<^verbatim>\<open>readslide_new\<close> stores
  is \<open>v\<close> modulo \<open>2^32\<close> read as a signed 32-bit number, and it is this number that is
  compared with the layer count: the open fails with \<open>InvalidLayer\<close> exactly when it is
  negative or not below the count.
\<close>

theorem readslide_new_layer_truncated:
  assumes "files wld0 name = Some s" and "mode \<noteq> []" and "strtol mode = (v, [])"
    and "readslide_new name mode wld0 out0 = (res, wld1, out1)"
  shows "LONG_MIN \<le> v \<and> v \<le> LONG_MAX \<and>
         layer (heap wld1 (allocated wld0)) = word_of_int v \<and>
         sint (layer (heap wld1 (allocated wld0))) = signed_take_bit 31 v \<and>
         ((res = Inl InvalidLayer) =
            (signed_take_bit 31 v < 0 \<or> layer_count s \<le> signed_take_bit 31 v))"
proof -
  have v: "fst (strtol mode) = v" and e: "snd (strtol mode) = []"
    using assms(3) by simp_all
  have range: "LONG_MIN \<le> v \<and> v \<le> LONG_MAX"
    using strtol_range [of mode] v by simp
  have stored: "layer (heap wld1 (allocated wld0)) = word_of_int v"
    using readslide_new_layer_field [OF assms(4,1)] v by simp
  have t: "sint (word_of_int v :: int32_t) = signed_take_bit 31 v"
    by (simp add: sint_sbintrunc')
  have "(res = Inl InvalidLayer) =
      (signed_take_bit 31 v < 0 \<or> layer_count s \<le> signed_take_bit 31 v)"
    using assms(4)
  proof (cases rule: readslide_new_cases)
    case open_failed
    with assms(1) show ?thesis by simp
  next
    case (bad_layer s')
    with assms(1) v t show ?thesis by auto
  next
    case (bad_name s')
    with e show ?thesis by simp
  next
    case (finish h wld)
    have s: "content h = s"
      using finish(1) assms(1) by simp
    have ok: "0 \<le> signed_take_bit 31 v \<and> signed_take_bit 31 v < layer_count s"
      using finish(8) assms(2) e v t s by simp
    have "res = fst (readslide_finish h (allocated wld0) wld
        (out0\<lparr>close_cbs := close_cbs out0 @ [allocated wld0]\<rparr>))"
      by (simp add: finish(3))
    then have "res \<noteq> Inl InvalidLayer"
      by (auto simp: readslide_finish_result split: option.splits prod.splits if_splits)
    with ok show ?thesis by auto
  qed
  with range stored t show ?thesis
    by simp
qed

theorem readslide_new_layer_truncated_witness:
  "strtol ''4294967296'' = (4294967296, []) \<and>
   (case readslide_new ''a.svs'' ''4294967296'' (demo_world (demo_slide 2000 1000)) new_image of
      (res, wld1, out1) \<Rightarrow>
        res \<noteq> Inl InvalidLayer \<and> sint (layer (heap wld1 0)) = 0 \<and> res = Inr 0 \<and>
        Xsize out1 = 2000)"
proof -
  have f: "files (demo_world (demo_slide 2000 1000)) ''a.svs'' = Some (demo_slide 2000 1000)"
    by (simp add: demo_world_def)
  have s0: "strtol ''4294967296'' = (4294967296, [])"
    by (simp add: run_defs)
  obtain r0 w0 o0 where
    run0: "readslide_new ''a.svs'' ''4294967296'' (demo_world (demo_slide 2000 1000)) new_image
             = (r0, w0, o0)"
    by (rule prod_cases3)
  from readslide_new_layer_truncated [OF f _ s0 run0]
  have "sint (layer (heap w0 0)) = 0" and "r0 \<noteq> Inl InvalidLayer"
    by (simp_all add: demo_world_def demo_slide_def)
  moreover have "r0 = Inr 0" and "Xsize o0 = 2000"
    using run0 by (auto simp: run_defs)
  ultimately show ?thesis
    using s0 by (simp add: run0)
qed

text \<open>
  The claim as stated fails for a number that does not fit \<^verbatim>\<open>long\<close>: \<open>2^63\<close> is 0
  modulo \<open>2^32\<close> and layer 0 exists, but \<^verbatim>\<open>strtol\<close> returns \<^verbatim>\<open>LONG_MAX\<close>, the layer stored
  is \<open>-1\<close> and the open fails with \<open>InvalidLayer\<close>.
\<close>

theorem readslide_new_layer_truncated_counterexample:
  "snd (strtol ''9223372036854775808'') = [] \<and>
   int (digits_value 10 0 ''9223372036854775808'') = 9223372036854775808 \<and>
   signed_take_bit 31 (9223372036854775808 :: int) = 0 \<and>
   0 < layer_count (demo_slide 2000 1000) \<and>
   (case readslide_new ''a.svs'' ''9223372036854775808''
           (demo_world (demo_slide 2000 1000)) new_image of
      (res, wld1, out1) \<Rightarrow> res = Inl InvalidLayer \<and> sint (layer (heap wld1 0)) = - 1)"
  by (simp add: run_defs)


subsection \<open>C8 and C10: the dimensions of an associated image\<close>

lemma write_lines_result:
  "fst (write_lines hst w hh y out) = Inl HostFailure \<or> fst (write_lines hst w hh y out) = Inr ()"
proof (induction hst w hh y out rule: write_lines.induct)
  case (1 hst w hh y out)
  then show ?case
    by (subst (1 2) write_lines.simps) auto
qed

lemma write_lines_arrays: "arrays (snd (write_lines hst w hh y out)) = arrays out"
proof (induction hst w hh y out rule: write_lines.induct)
  case (1 hst w hh y out)
  then show ?case
    by (subst write_lines.simps) auto
qed

text \<open>
  C8. Let the raw image be there, let the backend open the slide, and let the mode name
  an associated image the backend lists, so that its dimensions are asked for. If the
  backend reports the width or the height as \<open>-1\<close>, \<^verbatim>\<open>vips__openslide_read_associated\<close>
  fails with \<open>DimensionQuery\<close>; the image \<open>out\<close> is as it was, so no array has been
  allocated, and the backend has not been asked to read the image.
\<close>

theorem read_associated_unknown_dimensions:
  assumes "files wld0 name = Some s" and "mode \<noteq> []" and "snd (strtol mode) \<noteq> []"
    and "mode \<in> set (associated_image_names s)"
    and "fst (associated_image_dimensions s (Some mode)) = - 1
          \<or> snd (associated_image_dimensions s (Some mode)) = - 1"
    and "vips__openslide_read_associated hst (Some raw0) name mode wld0 out0
          = (res, wld1, out1, raw1)"
  shows "res = Inl DimensionQuery \<and> out1 = out0 \<and> arrays out1 = arrays out0 \<and>
         image_reads wld1 = image_reads wld0"
proof -
  obtain r w raw where new: "readslide_new name mode wld0 raw0 = (r, w, raw)"
    by (rule prod_cases3)
  have r: "r = Inl DimensionQuery" and w: "image_reads w = image_reads wld0"
  proof -
    from new show "r = Inl DimensionQuery"
    proof (cases rule: readslide_new_cases)
      case open_failed
      with assms(1) show ?thesis by simp
    next
      case (bad_layer s')
      with assms(3) show ?thesis by simp
    next
      case (bad_name s')
      with assms(1,4) show ?thesis
        by (simp add: check_associated_image_loop_member)
    next
      case (finish h wld)
      have s: "content h = s"
        using finish(1) assms(1) by simp
      have "r = fst (readslide_finish h (allocated wld0) wld
          (raw0\<lparr>close_cbs := close_cbs raw0 @ [allocated wld0]\<rparr>))"
        by (simp add: finish(3))
      then show ?thesis
        using finish(6,7) assms(2,3,5) s
        by (auto simp: readslide_finish_result split: prod.splits)
    qed
    from new show "image_reads w = image_reads wld0"
      by (auto simp: readslide_new_def openslide_open_def poke_def Let_def readslide_finish_def
          readslide_query_def split: option.splits if_splits prod.splits)
  qed
  from assms(6) w show ?thesis
    by (auto simp: vips__openslide_read_associated_def new r)
qed

theorem read_associated_unknown_dimensions_witness:
  "case vips__openslide_read_associated good_host (Some new_image) ''a.svs'' ''thumbnail''
          (demo_world ((demo_slide 2000 1000)\<lparr>associated_image_dimensions := (\<lambda>n. (- 1, - 1))\<rparr>))
          new_image of
     (res, wld1, out1, raw1) \<Rightarrow> res = Inl DimensionQuery \<and> arrays out1 = []"
proof -
  let ?s = "(demo_slide 2000 1000)\<lparr>associated_image_dimensions := (\<lambda>n. (- 1, - 1))\<rparr>"
  obtain res wld1 out1 raw1 where
    run: "vips__openslide_read_associated good_host (Some new_image) ''a.svs'' ''thumbnail''
            (demo_world ?s) new_image = (res, wld1, out1, raw1)"
    by (rule prod_cases4)
  have "files (demo_world ?s) ''a.svs'' = Some ?s"
    and "''thumbnail'' \<noteq> []" and "snd (strtol ''thumbnail'') \<noteq> []"
    and "''thumbnail'' \<in> set (associated_image_names ?s)"
    and "fst (associated_image_dimensions ?s (Some ''thumbnail'')) = - 1
          \<or> snd (associated_image_dimensions ?s (Some ''thumbnail'')) = - 1"
    by (simp_all add: run_defs)
  from read_associated_unknown_dimensions [OF this run]
  have "res = Inl DimensionQuery" and "arrays out1 = []"
    by (simp_all add: new_image_def)
  then show ?thesis
    by (simp add: run)
qed

text \<open>
  C10. The dimension query is a function of the open slide and the name, so it answers
  the same twice. When \<^verbatim>\<open>readslide_new\<close> succeeds in associated mode, the struct holds
  the handle, the dimensions the backend answers for the name are not negative, hence
  not \<open>-1\<close>, and \<^verbatim>\<open>vips__openslide_read_associated\<close> on the same input does not fail
  with \<open>DimensionQuery\<close>: the check after its own query does not fire.
\<close>

theorem read_associated_requery:
  assumes "readslide_new name mode wld0 raw0 = (Inr p, wld1, raw1)"
    and "associated (heap wld1 p) = Some a"
  shows "(\<exists>h. osr (heap wld1 p) = Some h \<and>
              0 \<le> fst (associated_image_dimensions (content h) (Some a)) \<and>
              0 \<le> snd (associated_image_dimensions (content h) (Some a)) \<and>
              fst (associated_image_dimensions (content h) (Some a)) \<noteq> - 1 \<and>
              snd (associated_image_dimensions (content h) (Some a)) \<noteq> - 1) \<and>
         fst (vips__openslide_read_associated hst (Some raw0) name mode wld0 out0)
           \<noteq> Inl DimensionQuery"
  using assms(1)
proof (cases rule: readslide_new_cases)
  case (finish h wld)
  note fin = finish(3)
  have p: "p = allocated wld0"
    by (rule readslide_finish_done(1) [OF fin])
  have o: "osr (heap wld1 p) = Some h"
    using readslide_finish_frame(1) [OF fin, of p] finish(4) p by simp
  have a: "associated (heap wld p) = Some a"
    using readslide_finish_frame(2) [OF fin, of p] assms(2) by simp
  have "fst (readslide_finish h p wld (raw0\<lparr>close_cbs := close_cbs raw0 @ [allocated wld0]\<rparr>))
      = Inr p"
    using fin p by simp
  then have d: "0 \<le> fst (associated_image_dimensions (content h) (Some a))"
    "0 \<le> snd (associated_image_dimensions (content h) (Some a))"
    using a by (auto simp: readslide_finish_result split: prod.splits if_splits)
  obtain w hh where wh: "associated_image_dimensions (content h) (Some a) = (w, hh)"
    by (cases "associated_image_dimensions (content h) (Some a)")
  have ne: "w \<noteq> - 1" "hh \<noteq> - 1"
    using d wh by auto
  have "fst (vips__openslide_read_associated hst (Some raw0) name mode wld0 out0)
      \<noteq> Inl DimensionQuery"
    using write_lines_result [of hst w hh 0 "out0\<lparr>arrays := arrays out0 @ [w * hh]\<rparr>"]
    by (auto simp: vips__openslide_read_associated_def assms o wh ne Let_def
        split: option.splits prod.splits)
  with o d wh ne show ?thesis
    by auto
qed simp_all

theorem read_associated_requery_witness:
  "fst (readslide_new ''a.svs'' ''thumbnail'' (demo_world (demo_slide 2000 1000)) new_image)
     = Inr 0 \<and>
   associated_image_dimensions (demo_slide 2000 1000) (Some ''thumbnail'') = (64, 48) \<and>
   (case vips__openslide_read_associated good_host (Some new_image) ''a.svs'' ''thumbnail''
           (demo_world (demo_slide 2000 1000)) new_image of
      (res, wld1, out1, raw1) \<Rightarrow> res \<noteq> Inl DimensionQuery \<and> arrays out1 = [3072])"
proof -
  obtain wld1 raw1 where
    run: "readslide_new ''a.svs'' ''thumbnail'' (demo_world (demo_slide 2000 1000)) new_image
            = (Inr 0, wld1, raw1)"
    by (simp add: run_defs)
  have sel: "associated (heap wld1 0) = Some ''thumbnail''"
    using run by (auto simp: run_defs)
  have o: "osr (heap wld1 0) = Some \<lparr>handle = 0, content = demo_slide 2000 1000\<rparr>"
    using readslide_new_state(3) [OF run] by (simp add: demo_world_def)
  have d: "associated_image_dimensions (demo_slide 2000 1000) (Some ''thumbnail'') = (64, 48)"
    by (simp add: demo_slide_def)
  have e: "error_state (demo_slide 2000 1000) = None"
    by (simp add: demo_slide_def)
  obtain res w out raw where
    ra: "vips__openslide_read_associated good_host (Some new_image) ''a.svs'' ''thumbnail''
           (demo_world (demo_slide 2000 1000)) new_image = (res, w, out, raw)"
    by (rule prod_cases4)
  from read_associated_requery [OF run sel, of good_host new_image]
  have "res \<noteq> Inl DimensionQuery"
    by (simp add: ra)
  moreover have "wio_output_fails good_host = False" and "arrays new_image = []"
    by (simp_all add: good_host_def new_image_def)
  then have "arrays out = [3072]"
    using ra
    by (auto simp: vips__openslide_read_associated_def run sel o d e write_lines_arrays
        case_prod_beta Let_def)
  ultimately show ?thesis
    using d by (simp add: run ra)
qed


subsection \<open>The rounding of a coordinate\<close>

lemma round_half_even_of_int: "round_half_even (real_of_int m) = m"
  by (simp add: round_half_even_def)

lemma log2_power: "log 2 (2 ^ n) = real n"
  by (simp add: log_nat_power del: power_Suc)

text \<open>An integer below \<open>2^53\<close> is a double: the rounding leaves it as it is.\<close>

lemma round_double_of_int:
  assumes "\<bar>n\<bar> < 2 ^ 53"
  shows "round_double (real_of_int n) = real_of_int n"
proof (cases "n = 0")
  case True
  then show ?thesis
    by (simp add: round_double_def)
next
  case False
  define e where "e = \<lfloor>log 2 \<bar>real_of_int n\<bar>\<rfloor>"
  have "1 \<le> \<bar>n\<bar>"
    using False by simp
  then have "real_of_int 1 \<le> real_of_int \<bar>n\<bar>"
    by (simp only: of_int_le_iff)
  then have pos: "1 \<le> \<bar>real_of_int n\<bar>"
    by simp
  have lt: "\<bar>real_of_int n\<bar> < 2 ^ 53"
    using assms by (metis of_int_abs of_int_less_iff of_int_numeral of_int_power)
  have "0 \<le> log 2 \<bar>real_of_int n\<bar>"
    using pos by simp
  then have e0: "0 \<le> e"
    by (simp add: e_def)
  have "log 2 \<bar>real_of_int n\<bar> < log 2 (2 ^ 53)"
    by (rule iffD2 [OF log_less_cancel_iff]) (use pos lt in simp_all)
  then have "log 2 \<bar>real_of_int n\<bar> < 53"
    unfolding log2_power by simp
  then have e1: "e \<le> 52"
    unfolding e_def by linarith
  define k where "k = nat (52 - e)"
  have k: "real_of_int e - 52 = - real k"
    using e1 by (simp add: k_def)
  have u: "2 powr (real_of_int e - 52) = 1 / 2 ^ k"
    unfolding k by (simp add: powr_minus powr_realpow divide_simps)
  have q: "real_of_int n / (1 / 2 ^ k) = real_of_int (n * 2 ^ k)"
    by simp
  have "round_double (real_of_int n) =
      (1 / 2 ^ k) * real_of_int (round_half_even (real_of_int n / (1 / 2 ^ k)))"
    using False unfolding round_double_def Let_def e_def [symmetric] u by simp
  also have "\<dots> = (1 / 2 ^ k) * real_of_int (n * 2 ^ k)"
    unfolding q round_half_even_of_int ..
  also have "\<dots> = real_of_int n"
    by simp
  finally show ?thesis .
qed

lemma round_double_numeral [simp]:
  "(numeral k :: int) < 2 ^ 53 \<Longrightarrow> round_double (numeral k) = numeral k"
  using round_double_of_int [of "numeral k"] by simp

lemma round_double_zero [simp]: "round_double 0 = 0"
  by (simp add: round_double_def)

text \<open>At downsample 1 a coordinate of 32 bits is passed on as it is.\<close>

lemma coordinate_at_one:
  assumes "\<bar>n\<bar> < 2 ^ 53"
  shows "double_to_int (round_double (real_of_int n * 1)) = n"
  using round_double_of_int [OF assms] by (simp add: double_to_int_def)

lemma floor_log2:
  assumes "2 ^ k \<le> v" and "v < 2 ^ Suc k"
  shows "\<lfloor>log 2 v\<rfloor> = int k"
proof -
  have p: "0 < v"
    using assms(1) by (smt (verit) zero_less_power)
  have "log 2 (2 ^ k) \<le> log 2 v"
    by (rule iffD2 [OF log_le_cancel_iff]) (use assms p in simp_all)
  moreover have "log 2 v < log 2 (2 ^ Suc k)"
    by (rule iffD2 [OF log_less_cancel_iff]) (use assms p in simp_all)
  ultimately have "real k \<le> log 2 v" and "log 2 v < real (Suc k)"
    unfolding log2_power by simp_all
  then show ?thesis
    by (simp add: floor_eq_iff)
qed

text \<open>
  The rounding matters: the double nearest to 0.7 is \<open>6305039478318694 / 2^53\<close>; ten
  times it is just below 7, halfway between two doubles, and is rounded to 7, so the
  coordinate passed on is 7, where the exact product would give 6.
\<close>

lemma coordinate_rounded:
  "double_to_int (round_double (real_of_int 10 * (6305039478318694 / 2 ^ 53))) = 7"
  and "double_to_int (real_of_int 10 * (6305039478318694 / 2 ^ 53)) = 6"
proof -
  have f: "\<lfloor>log 2 \<bar>10 * (6305039478318694 / 2 ^ 53 :: real)\<bar>\<rfloor> = 2"
    using floor_log2 [of 2 "10 * (6305039478318694 / 2 ^ 53)"] by simp
  have "round_double (10 * (6305039478318694 / 2 ^ 53)) = 7"
    unfolding round_double_def Let_def f
    by (simp add: round_half_even_def powr_minus divide_simps)
  then show "double_to_int (round_double (real_of_int 10 * (6305039478318694 / 2 ^ 53))) = 7"
    by (simp add: double_to_int_def)
  show "double_to_int (real_of_int 10 * (6305039478318694 / 2 ^ 53)) = 6"
    by (simp add: double_to_int_def)
qed

subsection \<open>C1: the chunks of fill_region\<close>











lemmas fill_defs =
  fill_region_def fill_region_y.simps fill_region_x.simps openslide_read_region_def
  VIPS_REGION_ADDR_def demo_region_def






text \<open>
  When the region is no wider than a tile there is one chunk in each row of the grid,
  as wide as the region, and the chunks land where one read of the rectangle puts them:
  for a region of 200 by 300 the two ways of filling give the same buffer.
\<close>

lemma fill_region_200_by_300:
  "case readslide_new ''a.svs'' [] (demo_world (demo_slide 300 300)) new_image of
     (res, wld1, raw) \<Rightarrow>
       (case fill_region (demo_region 200 300) 0 wld1 of
          (r, wld2, reg) \<Rightarrow>
            r = Inr () \<and>
            reads wld2 = [(0, 0, 0, 0, 200, 256), (51200, 0, 256, 0, 200, 44)] \<and>
            (case osr (heap wld1 0) of
               None \<Rightarrow> False
             | Some h \<Rightarrow>
                 pels reg = pels (snd (openslide_read_region h 0 0 0 0 200 300
                                         (wld1, demo_region 200 300)))))"
proof -
  have a: "(k - 51200) mod 200 = k mod 200" for k :: int
    by (subst mod_diff_right_eq [symmetric]) simp
  have b: "(k - 51200) div 200 = k div 200 - 256" for k :: int
    using div_mult_self2 [of 200 k "- 256"] by simp
  show ?thesis
    by (simp add: run_defs fill_defs fun_eq_iff a b)
qed

end
